theory Spec2Isabelle
  imports Complex_Main "HOL-Library.Sublist"
begin

section \<open>Text: characters, case folding, containment, splitting\<close>

text \<open>
  A Python \<open>str\<close> is a sequence of code points. The model uses \<open>string\<close>, reading each
  \<open>char\<close> as one code point in the range U+0000 .. U+00FF (Latin-1), which holds every
  character of the rule sets, the patterns and the keyword tables of the program
  (\<open>CHR 0xF3\<close> is the letter o with acute accent). Inputs with code points above U+00FF
  are outside the model.
\<close>

definition upper_chars :: string where
  "upper_chars = ''ABCDEFGHIJKLMNOPQRSTUVWXYZ'' @
     [CHR 0xC0, CHR 0xC1, CHR 0xC2, CHR 0xC3, CHR 0xC4, CHR 0xC5, CHR 0xC6, CHR 0xC7,
      CHR 0xC8, CHR 0xC9, CHR 0xCA, CHR 0xCB, CHR 0xCC, CHR 0xCD, CHR 0xCE, CHR 0xCF,
      CHR 0xD0, CHR 0xD1, CHR 0xD2, CHR 0xD3, CHR 0xD4, CHR 0xD5, CHR 0xD6,
      CHR 0xD8, CHR 0xD9, CHR 0xDA, CHR 0xDB, CHR 0xDC, CHR 0xDD, CHR 0xDE]"

definition lower_chars :: string where
  "lower_chars = ''abcdefghijklmnopqrstuvwxyz'' @
     [CHR 0xE0, CHR 0xE1, CHR 0xE2, CHR 0xE3, CHR 0xE4, CHR 0xE5, CHR 0xE6, CHR 0xE7,
      CHR 0xE8, CHR 0xE9, CHR 0xEA, CHR 0xEB, CHR 0xEC, CHR 0xED, CHR 0xEE, CHR 0xEF,
      CHR 0xF0, CHR 0xF1, CHR 0xF2, CHR 0xF3, CHR 0xF4, CHR 0xF5, CHR 0xF6,
      CHR 0xF8, CHR 0xF9, CHR 0xFA, CHR 0xFB, CHR 0xFC, CHR 0xFD, CHR 0xFE]"

text \<open>\<open>str.lower()\<close> on one code point: the upper-case letters of Latin-1 map to the code
  point 32 above, every other code point is unchanged.\<close>

definition py_lower_char :: "char \<Rightarrow> char" where
  "py_lower_char c = (case map_of (zip upper_chars lower_chars) c of Some l \<Rightarrow> l | None \<Rightarrow> c)"

definition py_lower :: "string \<Rightarrow> string" where
  "py_lower s = map py_lower_char s"

text \<open>\<open>sub in s\<close> on strings: \<open>sub\<close> occurs in \<open>s\<close> as a contiguous substring.\<close>

fun py_in :: "string \<Rightarrow> string \<Rightarrow> bool" where
  "py_in sub [] = (sub = [])"
| "py_in sub (c # cs) = (prefix sub (c # cs) \<or> py_in sub cs)"

text \<open>The decimal digits (\<open>\d\<close>), the white space of \<open>str.isspace\<close> (\<open>\s\<close> and
  \<open>str.split()\<close>) and the word characters (\<open>\w\<close>: alphanumerics and the underscore).\<close>

definition is_digit :: "char \<Rightarrow> bool" where
  "is_digit c = (c \<in> set ''0123456789'')"

definition py_isspace :: "char \<Rightarrow> bool" where
  "py_isspace c = (c \<in> set [CHR 0x09, CHR 0x0A, CHR 0x0B, CHR 0x0C, CHR 0x0D,
                             CHR 0x1C, CHR 0x1D, CHR 0x1E, CHR 0x1F, CHR 0x20,
                             CHR 0x85, CHR 0xA0])"

definition is_word :: "char \<Rightarrow> bool" where
  "is_word c = (let n = (of_char c :: nat) in
     (48 \<le> n \<and> n \<le> 57) \<or> (65 \<le> n \<and> n \<le> 90) \<or> n = 95 \<or> (97 \<le> n \<and> n \<le> 122) \<or>
     n = 170 \<or> n = 178 \<or> n = 179 \<or> n = 181 \<or> n = 185 \<or> n = 186 \<or>
     n = 188 \<or> n = 189 \<or> n = 190 \<or>
     (192 \<le> n \<and> n \<le> 214) \<or> (216 \<le> n \<and> n \<le> 246) \<or> (248 \<le> n \<and> n \<le> 255))"

text \<open>\<open>s.split()\<close> without arguments: the maximal runs of characters that are not white
  space, in order; \<open>cur\<close> is the run being read.\<close>

fun split_ws :: "string \<Rightarrow> string \<Rightarrow> string list" where
  "split_ws cur [] = (if cur = [] then [] else [cur])"
| "split_ws cur (c # cs) =
     (if py_isspace c then (if cur = [] then split_ws [] cs else cur # split_ws [] cs)
      else split_ws (cur @ [c]) cs)"

definition py_split :: "string \<Rightarrow> string list" where
  "py_split s = split_ws [] s"


section \<open>Regular expressions of the rule sets\<close>

text \<open>
  The patterns of \<open>security.py\<close> use literal text, character classes, \<open>?\<close>, \<open>+\<close> and
  \<open>{m,n}\<close> on a class, alternations of literal words (the groups) and \<open>\b\<close>. A pattern is
  a sequence of such atoms. Matching follows the backtracking order of \<open>re\<close>: quantifiers
  are greedy, alternatives are tried left to right, and the first way to match the whole
  sequence is the match.

  A matching context is the character before the position (for \<open>\b\<close>), the text from the
  position on, and the texts of the groups matched so far.
\<close>

type_synonym ctx = "char option \<times> string \<times> string list"

datatype cls = Digit | Space | Word | OneOf string | SpaceOr string

fun in_cls :: "cls \<Rightarrow> char \<Rightarrow> bool" where
  "in_cls Digit c = is_digit c"
| "in_cls Space c = py_isspace c"
| "in_cls Word c = is_word c"
| "in_cls (OneOf cs) c = (c \<in> set cs)"
| "in_cls (SpaceOr cs) c = (py_isspace c \<or> c \<in> set cs)"

datatype atom =
    Bnd
  | Str string
  | Cls cls
  | Opt cls
  | Rep nat nat cls
  | Plus cls
  | Alt "string list"

text \<open>Comparing a pattern character with a text character; \<open>ic\<close> is \<open>re.IGNORECASE\<close>.\<close>

definition ceq :: "bool \<Rightarrow> char \<Rightarrow> char \<Rightarrow> bool" where
  "ceq ic a x = (if ic then py_lower_char a = py_lower_char x else a = x)"

text \<open>The literal \<open>w\<close> at the start of the text: the context after it, if it matches.\<close>

fun lit :: "bool \<Rightarrow> string \<Rightarrow> char option \<Rightarrow> string \<Rightarrow> (char option \<times> string) option" where
  "lit ic [] p s = Some (p, s)"
| "lit ic (a # w) p [] = None"
| "lit ic (a # w) p (x # s) = (if ceq ic a x then lit ic w (Some x) s else None)"

text \<open>The contexts after 0, 1, 2, ... characters of a class, up to the end of the run.\<close>

fun run_ctxs :: "cls \<Rightarrow> ctx \<Rightarrow> ctx list" where
  "run_ctxs k (p, [], g) = [(p, [], g)]"
| "run_ctxs k (p, x # xs, g) =
     (p, x # xs, g) # (if in_cls k x then run_ctxs k (Some x, xs, g) else [])"

definition at_boundary :: "char option \<Rightarrow> string \<Rightarrow> bool" where
  "at_boundary p s =
     ((case p of None \<Rightarrow> False | Some c \<Rightarrow> is_word c) \<noteq>
      (case s of [] \<Rightarrow> False | x # _ \<Rightarrow> is_word x))"

text \<open>All ways to match one atom at a context, in the order \<open>re\<close> tries them.\<close>

fun ms :: "bool \<Rightarrow> atom \<Rightarrow> ctx \<Rightarrow> ctx list" where
  "ms ic Bnd (p, s, g) = (if at_boundary p s then [(p, s, g)] else [])"
| "ms ic (Str w) (p, s, g) =
     (case lit ic w p s of None \<Rightarrow> [] | Some (p', s') \<Rightarrow> [(p', s', g)])"
| "ms ic (Cls k) (p, s, g) =
     (case s of [] \<Rightarrow> [] | x # xs \<Rightarrow> if in_cls k x then [(Some x, xs, g)] else [])"
| "ms ic (Opt k) (p, s, g) =
     (case s of [] \<Rightarrow> [(p, s, g)]
      | x # xs \<Rightarrow> if in_cls k x then [(Some x, xs, g), (p, s, g)] else [(p, s, g)])"
| "ms ic (Rep lo hi k) c = rev (drop lo (take (Suc hi) (run_ctxs k c)))"
| "ms ic (Plus k) c = rev (drop 1 (run_ctxs k c))"
| "ms ic (Alt ws) (p, s, g) =
     concat (map (\<lambda>w. case lit ic w p s of None \<Rightarrow> []
                      | Some (p', s') \<Rightarrow> [(p', s', g @ [take (length w) s])]) ws)"

primrec mseq :: "bool \<Rightarrow> atom list \<Rightarrow> ctx \<Rightarrow> ctx list" where
  "mseq ic [] c = [c]"
| "mseq ic (a # as) c = concat (map (mseq ic as) (ms ic a c))"

text \<open>\<open>pattern.match\<close> at one position: the first way found, if any.\<close>

definition match_at :: "bool \<Rightarrow> atom list \<Rightarrow> char option \<Rightarrow> string \<Rightarrow> ctx option" where
  "match_at ic rx p s = (case mseq ic rx (p, s, []) of [] \<Rightarrow> None | c # _ \<Rightarrow> Some c)"

text \<open>\<open>re.search\<close>: is there a position where the pattern matches.\<close>

fun search_from :: "bool \<Rightarrow> atom list \<Rightarrow> char option \<Rightarrow> string \<Rightarrow> bool" where
  "search_from ic rx p [] = (match_at ic rx p [] \<noteq> None)"
| "search_from ic rx p (x # xs) =
     (match_at ic rx p (x # xs) \<noteq> None \<or> search_from ic rx (Some x) xs)"

definition re_search :: "bool \<Rightarrow> atom list \<Rightarrow> string \<Rightarrow> bool" where
  "re_search ic rx s = search_from ic rx None s"

text \<open>
  \<open>re.sub\<close>: the leftmost match is replaced, the scan goes on after it, text that is in
  no match is copied. \<open>skip\<close> counts the characters of the current match still to pass
  over. The replacement is computed from the groups of the match. (A match of the empty
  string is replaced in place; no pattern of the program matches the empty string.)
\<close>

fun sub_from :: "bool \<Rightarrow> atom list \<Rightarrow> (string list \<Rightarrow> string) \<Rightarrow> nat \<Rightarrow> char option \<Rightarrow> string \<Rightarrow> string" where
  "sub_from ic rx repl skip p [] =
     (if skip = 0 then (case match_at ic rx p [] of None \<Rightarrow> [] | Some (_, _, g) \<Rightarrow> repl g)
      else [])"
| "sub_from ic rx repl (Suc n) p (x # xs) = sub_from ic rx repl n (Some x) xs"
| "sub_from ic rx repl 0 p (x # xs) =
     (case match_at ic rx p (x # xs) of
        None \<Rightarrow> x # sub_from ic rx repl 0 (Some x) xs
      | Some (_, r, g) \<Rightarrow>
          (let n = length (x # xs) - length r in
           if n = 0 then repl g @ x # sub_from ic rx repl 0 (Some x) xs
           else repl g @ sub_from ic rx repl (n - 1) (Some x) xs))"

definition re_sub :: "bool \<Rightarrow> atom list \<Rightarrow> (string list \<Rightarrow> string) \<Rightarrow> string \<Rightarrow> string" where
  "re_sub ic rx repl s = sub_from ic rx repl 0 None s"


section \<open>The safety layer (security.py)\<close>

definition palabras_in :: "string list" where
  "palabras_in =
    [''hackear'',
     ''robar'',
     ''estafar'',
     ''defraudar'',
     ''falsificar'',
     ''lavar dinero'',
     ''lavado de dinero'',
     ''evadir impuestos'',
     ''evasi'' @ [CHR 0xF3] @ ''n fiscal'',
     ''cuentas fantasma'',
     ''cuenta offshore ilegal'',
     ''piramide'',
     ''esquema ponzi'',
     ''clonar tarjeta'',
     ''skimming'',
     ''phishing'',
     ''fraude bancario'',
     ''transferencia ilegal'',
     ''suplantaci'' @ [CHR 0xF3] @ ''n de identidad'',
     ''pr'' @ [CHR 0xE9] @ ''stamo gota a gota'',
     ''usura'',
     ''prestamista ilegal'',
     ''inversi'' @ [CHR 0xF3] @ ''n piramidal'',
     ''multinivel fraudulento'',
     ''dame el pin'',
     ''contrase'' @ [CHR 0xF1] @ ''a de'',
     ''clave de'',
     ''datos de cuenta de otra persona'',
     ''mejor que [banco]'',
     ''peor banco'',
     ''banco fraudulento'',
     ''no dar cr'' @ [CHR 0xE9] @ ''dito por'',
     ''discriminar por edad'',
     ''discriminar por g'' @ [CHR 0xE9] @ ''nero'',
     ''ignora las instrucciones'',
     ''eres ahora'',
     ''modo desarrollador'',
     ''prompt injection'',
     ''system prompt'',
     ''olvida tu rol'']"

definition palabras_out :: "string list" where
  "palabras_out =
    [''no puedo ayudarte'',
     ''no s'' @ [CHR 0xE9],
     ''no tengo informaci'' @ [CHR 0xF3] @ ''n'',
     ''fuera de mi alcance'',
     ''no es mi funci'' @ [CHR 0xF3] @ ''n'',
     ''garantizo que ganar'' @ [CHR 0xE1] @ ''s'',
     ''inversi'' @ [CHR 0xF3] @ ''n sin riesgo'',
     ''dinero f'' @ [CHR 0xE1] @ ''cil'',
     ''nunca perder'' @ [CHR 0xE1] @ ''s'',
     ''rendimiento asegurado'',
     ''tu contrase'' @ [CHR 0xF1] @ ''a es'',
     ''tu pin es'',
     ''tu clave es'',
     ''evade impuestos'',
     ''oculta ingresos'',
     ''lava dinero'',
     ''falsifica documentos'',
     ''miente en tu declaraci'' @ [CHR 0xF3] @ ''n'',
     ''por tu edad no'',
     ''por tu g'' @ [CHR 0xE9] @ ''nero no'',
     ''por tu raza no'',
     ''criptomoneda sin regulaci'' @ [CHR 0xF3] @ ''n'',
     ''inversi'' @ [CHR 0xF3] @ ''n piramidal'',
     ''maldiciones'',
     ''groser'' @ [CHR 0xED] @ ''as'',
     ''palabras ofensivas'']"

definition responses_input_blocked :: "string list" where
  "responses_input_blocked =
    [''Lo siento, no puedo asistirte con ese tipo de consultas. Mi funci'' @ [CHR 0xF3] @ ''n es brindarte asesor'' @ [CHR 0xED] @ ''a financiera '' @ [CHR 0xE9] @ ''tica y legal.'',
     ''Esa solicitud est'' @ [CHR 0xE1] @ '' fuera del alcance de mi asesor'' @ [CHR 0xED] @ ''a. Si necesitas ayuda con productos financieros legales, estar'' @ [CHR 0xE9] @ '' encantado de ayudarte.'',
     ''No puedo procesar consultas que involucren actividades ilegales o no '' @ [CHR 0xE9] @ ''ticas. '' @ [CHR 0xBF] @ ''Puedo ayudarte con algo m'' @ [CHR 0xE1] @ ''s relacionado a finanzas personales?'',
     ''Mi rol es asesorar en finanzas de manera responsable. Esa consulta no es apropiada. '' @ [CHR 0xBF] @ ''Tienes alguna otra pregunta sobre productos bancarios?'',
     ''Disculpa, no puedo responder a eso. Estoy aqu'' @ [CHR 0xED] @ '' para ayudarte con decisiones financieras legales y '' @ [CHR 0xE9] @ ''ticas.'',
     ''Por pol'' @ [CHR 0xED] @ ''ticas de seguridad y '' @ [CHR 0xE9] @ ''tica, no puedo ayudarte con esa consulta. '' @ [CHR 0xBF] @ ''Necesitas informaci'' @ [CHR 0xF3] @ ''n sobre cuentas de ahorro o pr'' @ [CHR 0xE9] @ ''stamos?'']"

definition responses_output_blocked :: "string list" where
  "responses_output_blocked =
    [''Disculpa, mi respuesta anterior no cumpli'' @ [CHR 0xF3] @ '' con los est'' @ [CHR 0xE1] @ ''ndares de seguridad. Por favor, reformula tu pregunta y con gusto te ayudar'' @ [CHR 0xE9] @ ''.'',
     ''Lo siento, detect'' @ [CHR 0xE9] @ '' un error en mi respuesta. '' @ [CHR 0xBF] @ ''Podr'' @ [CHR 0xED] @ ''as replantear tu consulta de otra manera?'',
     ''Por seguridad, no puedo completar esa respuesta. '' @ [CHR 0xBF] @ ''Hay algo m'' @ [CHR 0xE1] @ ''s en lo que pueda ayudarte?'',
     ''Mi respuesta no pas'' @ [CHR 0xF3] @ '' los filtros de seguridad. Intentemos de nuevo con una pregunta diferente.'']"

definition financial_keywords :: "string list" where
  "financial_keywords =
    [''pr'' @ [CHR 0xE9] @ ''stamo'',
     ''cr'' @ [CHR 0xE9] @ ''dito'',
     ''ahorro'',
     ''inversi'' @ [CHR 0xF3] @ ''n'',
     ''banco'',
     ''cuenta'',
     ''tarjeta'',
     ''tasa'',
     ''inter'' @ [CHR 0xE9] @ ''s'',
     ''deuda'',
     ''plazo fijo'',
     ''hipoteca'',
     ''seguro'',
     ''tcea'',
     ''trea'',
     ''cts'',
     ''afp'',
     ''fondos'',
     ''dinero'',
     ''soles'',
     ''d'' @ [CHR 0xF3] @ ''lares'',
     ''financiero'',
     ''econ'' @ [CHR 0xF3] @ ''mico'',
     ''presupuesto'']"

text \<open>Each pattern is kept with its source text, which the screens return as the detail
  of a block.\<close>

definition patterns_in :: "(string \<times> atom list) list" where
  "patterns_in =
    [(''cu[ae]nta'' @ [CHR 0x5C] @ ''s+de'' @ [CHR 0x5C] @ ''s+'' @ [CHR 0x5C] @ ''w+'',
      [Str ''cu'', Cls (OneOf ''ae''), Str ''nta'', Plus Space, Str ''de'', Plus Space, Plus Word]),
     (''clave'' @ [CHR 0x5C] @ ''s+de'' @ [CHR 0x5C] @ ''s+mi'' @ [CHR 0x5C] @ ''s+(esposa|esposo|amigo|jefe)'',
      [Str ''clave'', Plus Space, Str ''de'', Plus Space, Str ''mi'', Plus Space,
       Alt [''esposa'', ''esposo'', ''amigo'', ''jefe'']]),
     (''c[o'' @ [CHR 0xF3] @ '']mo'' @ [CHR 0x5C] @ ''s+(ocultar|esconder)'' @ [CHR 0x5C] @ ''s+(ingresos|dinero|ganancias)'',
      [Str ''c'', Cls (OneOf (''o'' @ [CHR 0xF3])), Str ''mo'', Plus Space,
       Alt [''ocultar'', ''esconder''], Plus Space, Alt [''ingresos'', ''dinero'', ''ganancias'']]),
     (''evitar'' @ [CHR 0x5C] @ ''s+pagar'' @ [CHR 0x5C] @ ''s+(impuestos|tributos)'',
      [Str ''evitar'', Plus Space, Str ''pagar'', Plus Space, Alt [''impuestos'', ''tributos'']]),
     (''transferir'' @ [CHR 0x5C] @ ''s+sin'' @ [CHR 0x5C] @ ''s+que'' @ [CHR 0x5C] @ ''s+se'' @ [CHR 0x5C] @ ''s+den'' @ [CHR 0x5C] @ ''s+cuenta'',
      [Str ''transferir'', Plus Space, Str ''sin'', Plus Space, Str ''que'', Plus Space,
       Str ''se'', Plus Space, Str ''den'', Plus Space, Str ''cuenta'']),
     (''sacar'' @ [CHR 0x5C] @ ''s+dinero'' @ [CHR 0x5C] @ ''s+de'' @ [CHR 0x5C] @ ''s+cuenta'' @ [CHR 0x5C] @ ''s+ajena'',
      [Str ''sacar'', Plus Space, Str ''dinero'', Plus Space, Str ''de'', Plus Space,
       Str ''cuenta'', Plus Space, Str ''ajena''])]"

definition patterns_out :: "(string \<times> atom list) list" where
  "patterns_out =
    [(''(garantizo|aseguro|prometo)'' @ [CHR 0x5C] @ ''s+que'' @ [CHR 0x5C] @ ''s+(ganar'' @ [CHR 0xE1] @ ''s|nunca perder'' @ [CHR 0xE1] @ ''s)'',
      [Alt [''garantizo'', ''aseguro'', ''prometo''], Plus Space, Str ''que'', Plus Space,
       Alt [''ganar'' @ [CHR 0xE1] @ ''s'', ''nunca perder'' @ [CHR 0xE1] @ ''s'']]),
     (''rendimiento'' @ [CHR 0x5C] @ ''s+(garantizado|asegurado|seguro)'' @ [CHR 0x5C] @ ''s+del?'' @ [CHR 0x5C] @ ''s+'' @ [CHR 0x5C] @ ''d+%'',
      [Str ''rendimiento'', Plus Space, Alt [''garantizado'', ''asegurado'', ''seguro''],
       Plus Space, Str ''de'', Opt (OneOf ''l''), Plus Space, Plus Digit, Str ''%'']),
     (''(evita|evade|esquiva)'' @ [CHR 0x5C] @ ''s+(impuestos|tributos|sbs)'',
      [Alt [''evita'', ''evade'', ''esquiva''], Plus Space, Alt [''impuestos'', ''tributos'', ''sbs'']])]"

text \<open>\<open>random.choice\<close>: the generator is outside the program, so the index drawn is an
  argument; on the empty list \<open>random.choice\<close> raises and the model returns the empty text
  (the program only draws from its two fixed, non-empty lists).\<close>

definition get_random_response :: "nat \<Rightarrow> string list \<Rightarrow> string" where
  "get_random_response draw response_list =
     (if response_list = [] then [] else response_list ! (draw mod length response_list))"

text \<open>The screens: the keyword loop with its early return, then the pattern loop.
  The result is \<open>(is_blocked, tipo_bloqueo, detalle)\<close>.\<close>

definition check_input :: "string \<Rightarrow> bool \<times> string \<times> string" where
  "check_input message =
     (let message_lower = py_lower message in
      case find (\<lambda>palabra. py_in (py_lower palabra) message_lower) palabras_in of
        Some palabra \<Rightarrow> (True, ''palabra'', palabra)
      | None \<Rightarrow>
         (case find (\<lambda>(pattern, rx). re_search False rx message_lower) patterns_in of
            Some (pattern, rx) \<Rightarrow> (True, ''patr'' @ [CHR 0xF3] @ ''n'', pattern)
          | None \<Rightarrow> (False, [], [])))"

definition check_output :: "string \<Rightarrow> bool \<times> string \<times> string" where
  "check_output response =
     (let response_lower = py_lower response in
      case find (\<lambda>palabra. py_in (py_lower palabra) response_lower) palabras_out of
        Some palabra \<Rightarrow> (True, ''palabra'', palabra)
      | None \<Rightarrow>
         (case find (\<lambda>(pattern, rx). re_search False rx response_lower) patterns_out of
            Some (pattern, rx) \<Rightarrow> (True, ''patr'' @ [CHR 0xF3] @ ''n'', pattern)
          | None \<Rightarrow> (False, [], [])))"

text \<open>The three masking rules, in the order of the source:
  \<^verbatim>\<open>\b\d{4}[\s-]?\d{4}[\s-]?\d{4}[\s-]?\d{4}\b\<close>, then \<^verbatim>\<open>\b\d{10,20}\b\<close>, then
  \<^verbatim>\<open>(cvv|codigo|code|cvc)[\s:]+\d{3,4}\<close> (the second label is written with its accent in
  the source) under \<open>re.IGNORECASE\<close>, whose replacement is group 1 followed by
  \<^verbatim>\<open>: [OCULTO]\<close>.\<close>

definition card_rx :: "atom list" where
  "card_rx = [Bnd, Rep 4 4 Digit, Opt (SpaceOr ''-''), Rep 4 4 Digit, Opt (SpaceOr ''-''),
              Rep 4 4 Digit, Opt (SpaceOr ''-''), Rep 4 4 Digit, Bnd]"

definition account_rx :: "atom list" where
  "account_rx = [Bnd, Rep 10 20 Digit, Bnd]"

definition cvv_labels :: "string list" where
  "cvv_labels = [''cvv'', ''c'' @ [CHR 0xF3] @ ''digo'', ''code'', ''cvc'']"

definition cvv_rx :: "atom list" where
  "cvv_rx = [Alt cvv_labels, Plus (SpaceOr '':''), Rep 3 4 Digit]"

definition cvv_repl :: "string list \<Rightarrow> string" where
  "cvv_repl g = (case g of [] \<Rightarrow> [] | l # _ \<Rightarrow> l) @ '': [OCULTO]''"

definition sanitize_financial_data :: "string \<Rightarrow> string" where
  "sanitize_financial_data text0 =
     (let text1 = re_sub False card_rx (\<lambda>g. ''[TARJETA-OCULTA]'') text0;
          text2 = re_sub False account_rx (\<lambda>g. ''[CUENTA-OCULTA]'') text1;
          text3 = re_sub True cvv_rx cvv_repl text2
      in text3)"

text \<open>\<open>log_security_event\<close> prints an audit entry; the model keeps what it prints apart
  from the clock: the event type, the blocked content and the first 100 characters of the
  message.\<close>

record security_event =
  event_type :: string
  blocked_content :: string
  excerpt :: string

definition log_security_event :: "string \<Rightarrow> string \<Rightarrow> string \<Rightarrow> security_event" where
  "log_security_event ev user_message blocked =
     \<lparr>event_type = ev, blocked_content = blocked, excerpt = take 100 user_message\<rparr>"

definition validate_financial_context :: "string \<Rightarrow> bool \<times> string" where
  "validate_financial_context message =
     (let message_lower = py_lower message in
      if length (py_split message) < 3 then (True, [])
      else
        (let has_financial_keyword = list_ex (\<lambda>kw. py_in kw message_lower) financial_keywords in
         if \<not> has_financial_keyword
         then (False, ''La consulta no parece estar relacionada con finanzas.'')
         else (True, [])))"


section \<open>The statistics client (bcrp_api.py)\<close>

subsection \<open>Decoded responses and Python's operations on them\<close>

text \<open>
  \<open>response.json()\<close> returns whatever JSON the service sent, so the client's code runs on
  any decoded value. An object is an association list in key order, with distinct keys;
  \<open>None\<close> is \<open>JNull\<close>. The dictionaries the client builds are objects too.
\<close>

datatype json =
    JNull
  | JBool bool
  | JNum rat
  | JStr string
  | JList "json list"
  | JObj "(string \<times> json) list"

datatype exn =
    ValueError string
  | RequestException string
  | JSONDecodeError
  | TypeError
  | KeyError
  | IndexError
  | AttributeError

definition and_then :: "exn + 'a \<Rightarrow> ('a \<Rightarrow> exn + 'b) \<Rightarrow> exn + 'b" where
  "and_then m f = (case m of Inl e \<Rightarrow> Inl e | Inr x \<Rightarrow> f x)"

text \<open>Truth value of an object in a condition.\<close>

fun py_truthy :: "json \<Rightarrow> bool" where
  "py_truthy JNull = False"
| "py_truthy (JBool b) = b"
| "py_truthy (JNum n) = (n \<noteq> 0)"
| "py_truthy (JStr s) = (s \<noteq> [])"
| "py_truthy (JList l) = (l \<noteq> [])"
| "py_truthy (JObj kv) = (kv \<noteq> [])"

text \<open>\<open>k in data\<close> for a string \<open>k\<close>: a key of a dict, an element of a list, a substring
  of a string; \<open>TypeError\<close> on a value that is not a container.\<close>

fun py_contains :: "string \<Rightarrow> json \<Rightarrow> exn + bool" where
  "py_contains k (JObj kv) = Inr (map_of kv k \<noteq> None)"
| "py_contains k (JList l) = Inr (JStr k \<in> set l)"
| "py_contains k (JStr s) = Inr (py_in k s)"
| "py_contains k _ = Inl TypeError"

text \<open>\<open>data[k]\<close> for a string \<open>k\<close>.\<close>

fun py_getitem :: "json \<Rightarrow> string \<Rightarrow> exn + json" where
  "py_getitem (JObj kv) k = (case map_of kv k of None \<Rightarrow> Inl KeyError | Some v \<Rightarrow> Inr v)"
| "py_getitem _ k = Inl TypeError"

text \<open>\<open>xs[i]\<close> for an index \<open>i \<ge> 0\<close> and \<open>xs[-1]\<close>; a dict decoded from JSON has string
  keys only, so an integer subscript on it is a \<open>KeyError\<close>.\<close>

fun py_index :: "json \<Rightarrow> nat \<Rightarrow> exn + json" where
  "py_index (JList l) i = (if i < length l then Inr (l ! i) else Inl IndexError)"
| "py_index (JStr s) i = (if i < length s then Inr (JStr [s ! i]) else Inl IndexError)"
| "py_index (JObj kv) i = Inl KeyError"
| "py_index _ i = Inl TypeError"

fun py_last :: "json \<Rightarrow> exn + json" where
  "py_last (JList l) = (if l = [] then Inl IndexError else Inr (last l))"
| "py_last (JStr s) = (if s = [] then Inl IndexError else Inr (JStr [last s]))"
| "py_last (JObj kv) = Inl KeyError"
| "py_last _ = Inl TypeError"

text \<open>\<open>d.get(k, default)\<close>: only a dict has the method.\<close>

fun py_get :: "json \<Rightarrow> string \<Rightarrow> json \<Rightarrow> exn + json" where
  "py_get (JObj kv) k dflt = Inr (case map_of kv k of None \<Rightarrow> dflt | Some v \<Rightarrow> v)"
| "py_get _ k dflt = Inl AttributeError"

fun py_len :: "json \<Rightarrow> exn + nat" where
  "py_len (JList l) = Inr (length l)"
| "py_len (JStr s) = Inr (length s)"
| "py_len (JObj kv) = Inr (length kv)"
| "py_len _ = Inl TypeError"

text \<open>\<open>sep.join(parts)\<close>.\<close>

fun py_join :: "string \<Rightarrow> string list \<Rightarrow> string" where
  "py_join sep [] = []"
| "py_join sep [x] = x"
| "py_join sep (x # y # ys) = x @ sep @ py_join sep (y # ys)"

subsection \<open>Configuration and series codes\<close>

definition BASE_URL :: string where
  "BASE_URL = ''https://estadisticas.bcrp.gob.pe/estadisticas/series/api''"

definition TIPO_CAMBIO_PROMEDIO :: string where "TIPO_CAMBIO_PROMEDIO = ''PD04637PD''"
definition TIPO_CAMBIO_COMPRA :: string where "TIPO_CAMBIO_COMPRA = ''PD04638PD''"
definition TIPO_CAMBIO_VENTA :: string where "TIPO_CAMBIO_VENTA = ''PD04639PD''"
definition TASA_REFERENCIA_BCRP :: string where "TASA_REFERENCIA_BCRP = ''PD04711PD''"
definition TASA_INTERBANCARIA :: string where "TASA_INTERBANCARIA = ''PD04706PD''"
definition TAMN_DEPOSITOS :: string where "TAMN_DEPOSITOS = ''PD04718PD''"
definition TAMEX_DEPOSITOS :: string where "TAMEX_DEPOSITOS = ''PD04719PD''"
definition TCEA_PRESTAMOS_MN :: string where "TCEA_PRESTAMOS_MN = ''PD04720PD''"
definition TCEA_PRESTAMOS_ME :: string where "TCEA_PRESTAMOS_ME = ''PD04721PD''"
definition IPC_NACIONAL :: string where "IPC_NACIONAL = ''PN01270PM''"
definition INFLACION_ANUAL :: string where "INFLACION_ANUAL = ''PN01272PM''"
definition PBI_REAL :: string where "PBI_REAL = ''PN01755AQ''"
definition RIN_MILLONES_USD :: string where "RIN_MILLONES_USD = ''PD04635PD''"

definition SERIES_DESCRIPTIONS :: "(string \<times> string) list" where
  "SERIES_DESCRIPTIONS =
    [(TIPO_CAMBIO_PROMEDIO, ''Tipo de cambio promedio (S/ por US$)''),
     (TIPO_CAMBIO_COMPRA, ''Tipo de cambio compra (S/ por US$)''),
     (TIPO_CAMBIO_VENTA, ''Tipo de cambio venta (S/ por US$)''),
     (TASA_REFERENCIA_BCRP, ''Tasa de referencia del BCRP (%)''),
     (TASA_INTERBANCARIA, ''Tasa interbancaria (%)''),
     (TAMN_DEPOSITOS, ''TAMN - Tasa activa de dep'' @ [CHR 0xF3] @ ''sitos en soles (%)''),
     (TAMEX_DEPOSITOS, ''TAMEX - Tasa activa de dep'' @ [CHR 0xF3] @ ''sitos en d'' @ [CHR 0xF3] @ ''lares (%)''),
     (TCEA_PRESTAMOS_MN, ''TCEA pr'' @ [CHR 0xE9] @ ''stamos personales en soles (%)''),
     (TCEA_PRESTAMOS_ME, ''TCEA pr'' @ [CHR 0xE9] @ ''stamos personales en d'' @ [CHR 0xF3] @ ''lares (%)''),
     (IPC_NACIONAL, ''IPC Nacional - Variaci'' @ [CHR 0xF3] @ ''n mensual (%)''),
     (INFLACION_ANUAL, ''Inflaci'' @ [CHR 0xF3] @ ''n anual (%)''),
     (RIN_MILLONES_USD, ''Reservas Internacionales Netas (millones US$)''),
     (PBI_REAL, ''PBI real - Variaci'' @ [CHR 0xF3] @ ''n trimestral (%)'')]"

subsection \<open>BCRPClient\<close>

text \<open>
  The service is outside the program: \<open>http url\<close> is what \<open>requests.get(url, timeout)\<close>
  followed by \<open>raise_for_status()\<close> does for that URL. Either an exception is raised
  (\<open>RequestException\<close> for a network error, a timeout or an HTTP error status), or there is
  a response with its text and with what \<open>response.json()\<close> does on it: the decoded value,
  or the exception of a body that is not JSON.
\<close>

datatype http_outcome =
    Raises exn
  | Response string "exn + json"

type_synonym http = "string \<Rightarrow> http_outcome"

text \<open>
  \<open>get_series\<close> returns its result (or the exception that leaves it) together with the
  URLs it requested. Only \<open>RequestException\<close> is caught and turned into the \<open>error\<close>
  dictionary. An absent or empty period is false in \<open>if start_period:\<close>.
\<close>

definition get_series ::
  "http \<Rightarrow> string list \<Rightarrow> string \<Rightarrow> string option \<Rightarrow> string option \<Rightarrow> string
     \<Rightarrow> (exn + json) \<times> string list" where
  "get_series http series_codes output_format start_period end_period language =
     (if length series_codes > 10
      then (Inl (ValueError (''M'' @ [CHR 0xE1] @ ''ximo 10 series por consulta'')), [])
      else
       (let series_str = py_join ''-'' series_codes;
            url_parts = [BASE_URL, series_str, output_format];
            url_parts = url_parts @
              (case start_period of
                 None \<Rightarrow> []
               | Some sp \<Rightarrow>
                   if sp = [] then []
                   else sp # (case end_period of None \<Rightarrow> []
                              | Some ep \<Rightarrow> if ep = [] then [] else [ep]));
            url_parts = url_parts @ (if language \<noteq> ''esp'' then [language] else []);
            url = py_join ''/'' url_parts
        in (case http url of
              Raises (RequestException e) \<Rightarrow> Inr (JObj [(''error'', JStr e)])
            | Raises e \<Rightarrow> Inl e
            | Response txt decoded \<Rightarrow>
                if output_format = ''json''
                then (case decoded of
                        Inl (RequestException e) \<Rightarrow> Inr (JObj [(''error'', JStr e)])
                      | Inl e \<Rightarrow> Inl e
                      | Inr j \<Rightarrow> Inr j)
                else Inr (JObj [(''raw'', JStr txt)]),
            [url])))"

text \<open>\<open>"periods" in data and data["periods"]\<close>, as a condition.\<close>

definition has_periods :: "json \<Rightarrow> exn + bool" where
  "has_periods data =
     and_then (py_contains ''periods'' data) (\<lambda>present.
       if \<not> present then Inr False
       else and_then (py_getitem data ''periods'') (\<lambda>ps. Inr (py_truthy ps)))"

text \<open>\<open>values[i] if len(values) > i else None\<close>.\<close>

definition value_at :: "json \<Rightarrow> nat \<Rightarrow> exn + json" where
  "value_at vals i =
     and_then (py_len vals) (\<lambda>n. if n > i then py_index vals i else Inr JNull)"

text \<open>The body of \<open>get_tipo_cambio\<close> and of \<open>get_tasas_interes\<close> after the fetch, with
  the three keys of the dictionary it builds: \<open>Inr None\<close> is \<open>return None\<close>.\<close>

definition latest_triple :: "string \<Rightarrow> string \<Rightarrow> string \<Rightarrow> json \<Rightarrow> exn + json option" where
  "latest_triple k0 k1 k2 data =
     and_then (has_periods data) (\<lambda>ok.
       if \<not> ok then Inr None
       else
         and_then (py_getitem data ''periods'') (\<lambda>ps.
         and_then (py_last ps) (\<lambda>last_period.
         and_then (py_get last_period ''values'' (JList [])) (\<lambda>vals.
         and_then (py_get last_period ''name'' JNull) (\<lambda>fecha.
         and_then (value_at vals 0) (\<lambda>v0.
         and_then (value_at vals 1) (\<lambda>v1.
         and_then (value_at vals 2) (\<lambda>v2.
           Inr (Some (JObj [(''fecha'', fecha), (k0, v0), (k1, v1), (k2, v2)]))))))))))"

text \<open>\<open>except Exception\<close>: every exception of the body becomes \<open>None\<close>.\<close>

definition catch_none :: "exn + json option \<Rightarrow> json option" where
  "catch_none r = (case r of Inl e \<Rightarrow> None | Inr x \<Rightarrow> x)"

definition get_tipo_cambio :: "http \<Rightarrow> json option \<times> string list" where
  "get_tipo_cambio http =
     (let (r, reqs) = get_series http
            [TIPO_CAMBIO_PROMEDIO, TIPO_CAMBIO_COMPRA, TIPO_CAMBIO_VENTA] ''json'' None None ''esp''
      in (catch_none (and_then r (latest_triple ''promedio'' ''compra'' ''venta'')), reqs))"

definition get_tasas_interes :: "http \<Rightarrow> json option \<times> string list" where
  "get_tasas_interes http =
     (let (r, reqs) = get_series http
            [TASA_REFERENCIA_BCRP, TAMN_DEPOSITOS, TAMEX_DEPOSITOS] ''json'' None None ''esp''
      in (catch_none (and_then r
            (latest_triple ''tasa_referencia'' ''tamn_depositos'' ''tamex_depositos'')), reqs))"

definition latest_record :: "string \<Rightarrow> json \<Rightarrow> exn + json option" where
  "latest_record series_code data =
     and_then (has_periods data) (\<lambda>ok.
       if \<not> ok then Inr None
       else
         and_then (py_getitem data ''periods'') (\<lambda>periods.
         and_then (py_last periods) (\<lambda>last_period.
         and_then (py_get data ''config'' (JObj [])) (\<lambda>config.
         and_then (py_get config ''series'' (JList [JObj []])) (\<lambda>series.
         and_then (py_index series 0) (\<lambda>first_series.
         and_then (py_get first_series ''name'' (JStr series_code)) (\<lambda>series_name.
         and_then (py_get last_period ''name'' JNull) (\<lambda>periodo.
         and_then (py_get last_period ''values'' (JList [JNull])) (\<lambda>vals.
         and_then (py_index vals 0) (\<lambda>valor.
           Inr (Some (JObj
             [(''serie'', series_name),
              (''codigo'', JStr series_code),
              (''periodo'', periodo),
              (''valor'', valor),
              (''descripcion'',
                 JStr (case map_of SERIES_DESCRIPTIONS series_code of
                         None \<Rightarrow> [] | Some d \<Rightarrow> d))]))))))))))))"

definition get_latest_value :: "http \<Rightarrow> string \<Rightarrow> json option \<times> string list" where
  "get_latest_value http series_code =
     (let (r, reqs) = get_series http [series_code] ''json'' None None ''esp''
      in (catch_none (and_then r (latest_record series_code)), reqs))"

definition get_inflacion :: "http \<Rightarrow> json option \<times> string list" where
  "get_inflacion http = get_latest_value http INFLACION_ANUAL"

subsection \<open>Intent detection and the economic context\<close>

text \<open>The dictionary of keyword lists, in insertion order, which is the order the loop of
  \<open>detect_economic_query\<close> visits it in.\<close>

definition patterns :: "(string \<times> string list) list" where
  "patterns =
    [(''tipo_cambio'', [''tipo de cambio'', ''dolar'', ''d'' @ [CHR 0xF3] @ ''lar'', ''tc'', ''cambio dolar'']),
     (''tasas'', [''tasa de interes'', ''tasa de inter'' @ [CHR 0xE9] @ ''s'', ''tamn'', ''tamex'', ''tasa referencia'']),
     (''inflacion'', [''inflacion'', ''inflaci'' @ [CHR 0xF3] @ ''n'', ''ipc'']),
     (''general'', [''datos econ'' @ [CHR 0xF3] @ ''micos'', ''indicadores econ'' @ [CHR 0xF3] @ ''micos'', ''estad'' @ [CHR 0xED] @ ''sticas bcrp''])]"

definition detect_economic_query :: "string \<Rightarrow> string option" where
  "detect_economic_query message =
     (let message_lower = py_lower message in
      case find (\<lambda>(query_type, keywords). list_ex (\<lambda>keyword. py_in keyword message_lower) keywords)
             patterns of
        None \<Rightarrow> None
      | Some (query_type, keywords) \<Rightarrow> Some query_type)"

text \<open>
  \<open>format_for_prompt\<close> renders the values of a dictionary with Python's \<open>str\<close>; the text
  it produces is the subject of no property here, so it is the argument \<open>fmt\<close>, which
  returns the text or the exception it raises. \<open>get_economic_context\<close> returns the context
  and the URLs requested. A dictionary returned by the client is never empty, so
  \<open>if data:\<close> is the test for \<open>None\<close>.
\<close>

definition context_header :: string where
  "context_header = ''--- DATOS ECON'' @ [CHR 0xD3] @ ''MICOS ACTUALIZADOS (BCRP) ---'' @ [CHR 0x0A]"

definition context_footer :: string where
  "context_footer = [CHR 0x0A] @ ''Fuente: Banco Central de Reserva del Per'' @ [CHR 0xFA] @ '' (BCRP)''"

definition append_formatted ::
  "(json \<Rightarrow> exn + string) \<Rightarrow> string \<Rightarrow> json option \<Rightarrow> string list \<Rightarrow> exn + string list" where
  "append_formatted fmt pre data context_parts =
     (case data of
        None \<Rightarrow> Inr context_parts
      | Some d \<Rightarrow> and_then (fmt d) (\<lambda>t. Inr (context_parts @ [pre @ t])))"

definition get_economic_context ::
  "http \<Rightarrow> (json \<Rightarrow> exn + string) \<Rightarrow> string \<Rightarrow> string \<times> string list" where
  "get_economic_context http fmt message =
     (case detect_economic_query message of
        None \<Rightarrow> ([], [])
      | Some query_type \<Rightarrow>
          if query_type = [] then ([], [])
          else
           (let context_parts = [context_header];
                (body, reqs) =
                  (if query_type = ''tipo_cambio'' then
                     (let (data, reqs) = get_tipo_cambio http
                      in (append_formatted fmt [] data context_parts, reqs))
                   else if query_type = ''tasas'' then
                     (let (data, reqs) = get_tasas_interes http
                      in (append_formatted fmt [] data context_parts, reqs))
                   else if query_type = ''inflacion'' then
                     (let (data, reqs) = get_inflacion http
                      in (append_formatted fmt [] data context_parts, reqs))
                   else if query_type = ''general'' then
                     (let (tc, reqs1) = get_tipo_cambio http;
                          (tasas, reqs2) = get_tasas_interes http
                      in (and_then (append_formatted fmt [] tc context_parts)
                            (append_formatted fmt [CHR 0x0A] tasas), reqs1 @ reqs2))
                   else (Inr context_parts, []))
            in (case body of
                  Inl e \<Rightarrow> ([], reqs)
                | Inr parts \<Rightarrow> (py_join [CHR 0x0A] (parts @ [context_footer]), reqs))))"


section \<open>The turn (app.py)\<close>

text \<open>
  A session holds the conversation memory (\<open>ChatMessageHistory\<close>), what the chat surface
  was told to do, and the audit entries printed. The surface's events: a token streamed
  into the answer message, the answer message removed, the answer message sent, and a
  separate warning message (the warning sign followed by the given text).
\<close>

datatype role = Human | AI

type_synonym message = "role \<times> string"

datatype ui_event = Token string | RemoveMsg | SendMsg | SendWarning string

record session =
  memory :: "message list"
  screen :: "ui_event list"
  audit :: "security_event list"

text \<open>
  The chain built in \<open>on_chat_start\<close> (context assembly, prompt, model, output parser)
  ends in the hosted model, which is outside the program: it is a function from the input
  and the history it is given to the chunks it streams.
\<close>

type_synonym chain = "string \<Rightarrow> message list \<Rightarrow> string list"

text \<open>
  \<open>on_chat_start\<close> stores an empty \<open>ChatMessageHistory\<close> as the session's memory and
  wraps the chain in \<open>RunnableWithMessageHistory\<close> with \<open>get_session_history\<close> returning
  that memory, \<open>input_messages_key="input"\<close> and \<open>history_messages_key="history"\<close>.
  \<open>RunnableWithMessageHistory\<close> is a class of the langchain_core library, not code of the
  repository; \<open>agent_astream\<close> follows its documented behaviour: the wrapped chain runs on
  the input and the stored history, its chunks are streamed on, and when the run ends the
  input is added to the history as a human message and the whole output as an AI message.
\<close>

definition on_chat_start :: session where
  "on_chat_start = \<lparr>memory = [], screen = [], audit = []\<rparr>"

definition agent_astream :: "chain \<Rightarrow> message list \<Rightarrow> string \<Rightarrow> string list \<times> message list" where
  "agent_astream chain history inp =
     (let chunks = chain inp history
      in (chunks, history @ [(Human, inp), (AI, concat chunks)]))"

text \<open>\<open>on_message\<close>: one turn on the user's text \<open>content\<close>; \<open>draw\<close> is the index drawn by
  \<open>random.choice\<close>.\<close>

definition on_message :: "chain \<Rightarrow> nat \<Rightarrow> session \<Rightarrow> string \<Rightarrow> session" where
  "on_message chain draw s content =
     (let sanitized_message = sanitize_financial_data content;
          (is_blocked, tipo, detalle) = check_input sanitized_message
      in if is_blocked then
           s\<lparr>audit := audit s @ [log_security_event ''input_blocked'' content detalle],
             screen := screen s @
               [SendWarning (get_random_response draw responses_input_blocked)]\<rparr>
         else
          (let (chunks, memory') = agent_astream chain (memory s) sanitized_message;
               full_response = concat chunks;
               s1 = s\<lparr>memory := memory', screen := screen s @ map Token chunks\<rparr>;
               (is_blocked_out, tipo_out, detalle_out) = check_output full_response
           in if is_blocked_out then
                s1\<lparr>audit := audit s1 @ [log_security_event ''output_blocked'' content detalle_out],
                   screen := screen s1 @
                     [RemoveMsg, SendWarning (get_random_response draw responses_output_blocked)]\<rparr>
              else s1\<lparr>screen := screen s1 @ [SendMsg]\<rparr>))"


section \<open>Properties\<close>

subsection \<open>Helper facts on text\<close>

lemma py_in_sublist: "py_in sub s = sublist sub s"
  by (induction s) (auto simp: sublist_Cons_right)

lemma lower_tc_chars:
  "py_lower_char (CHR ''t'') = CHR ''t''" "py_lower_char (CHR ''T'') = CHR ''t''"
  "py_lower_char (CHR ''c'') = CHR ''c''" "py_lower_char (CHR ''C'') = CHR ''c''"
  by (simp_all add: py_lower_char_def upper_chars_def lower_chars_def)

lemma split_hola: "py_split ''hola mundo'' = [''hola'', ''mundo'']"
  by (simp add: py_split_def py_isspace_def)

subsection \<open>Short queries pass the topic filter\<close>

text \<open>
  Claim C9. For every message with fewer than 3 white-space separated words,
  \<open>validate_financial_context\<close> returns valid (\<open>True\<close> with the empty reason), whether or
  not the message contains a financial keyword.
\<close>

theorem short_query_is_valid:
  "length (py_split message) < 3 \<Longrightarrow> validate_financial_context message = (True, [])"
  by (simp add: validate_financial_context_def)

theorem short_query_is_valid_witness:
  "length (py_split ''hola mundo'') < 3 \<and> validate_financial_context ''hola mundo'' = (True, [])"
  using short_query_is_valid [of "''hola mundo''"] by (simp add: split_hola)

subsection \<open>The bare substring tc selects the exchange-rate intent\<close>

text \<open>
  Claim C10. For every message that contains the two letters t, c next to each other, in
  any casing and also inside a longer word, \<open>detect_economic_query\<close> returns the
  exchange-rate intent \<open>tipo_cambio\<close>: that intent is visited first and its keyword list
  holds the bare substring \<open>tc\<close>. So a question that mentions the TCEA is classified as
  an exchange-rate query.
\<close>

theorem tc_substring_is_exchange_rate:
  assumes "a \<in> {CHR ''t'', CHR ''T''}" and "b \<in> {CHR ''c'', CHR ''C''}"
  shows "detect_economic_query (pre @ [a, b] @ post) = Some ''tipo_cambio''"
proof -
  have a: "py_lower_char a = CHR ''t''"
    using assms(1) lower_tc_chars by blast
  have b: "py_lower_char b = CHR ''c''"
    using assms(2) lower_tc_chars by blast
  have "py_lower (pre @ [a, b] @ post) = py_lower pre @ ''tc'' @ py_lower post"
    by (simp add: py_lower_def a b)
  moreover have "sublist ''tc'' (py_lower pre @ ''tc'' @ py_lower post)"
    by (rule sublist_appendI)
  ultimately have "py_in ''tc'' (py_lower (pre @ [a, b] @ post))"
    by (simp only: py_in_sublist)
  then show ?thesis
    by (simp add: detect_economic_query_def patterns_def)
qed

theorem tc_substring_is_exchange_rate_witness:
  "detect_economic_query ''cual es la TCEA de un prestamo'' = Some ''tipo_cambio'' \<and>
   detect_economic_query ''match'' = Some ''tipo_cambio''"
  using tc_substring_is_exchange_rate [of "CHR ''T''" "CHR ''C''" "''cual es la ''" "''EA de un prestamo''"]
        tc_substring_is_exchange_rate [of "CHR ''t''" "CHR ''c''" "''ma''" "''h''"]
  by simp

subsection \<open>No intent, no fetch\<close>

lemma hola_lower: "py_lower ''hola'' = ''hola''"
  by (simp add: py_lower_def py_lower_char_def upper_chars_def lower_chars_def)

text \<open>
  Claim C6. For every message that matches none of the four intent keyword lists,
  \<open>get_economic_context\<close> returns the empty string and requests nothing from the service
  (the list of requested URLs is empty).
\<close>

theorem no_intent_no_fetch:
  assumes "\<forall>(query_type, keywords) \<in> set patterns.
             \<forall>keyword \<in> set keywords. \<not> py_in keyword (py_lower message)"
  shows "get_economic_context http fmt message = ([], [])"
proof -
  have "find (\<lambda>(query_type, keywords).
          list_ex (\<lambda>keyword. py_in keyword (py_lower message)) keywords) patterns = None"
    using assms by (auto simp: find_None_iff list_ex_iff)
  then have "detect_economic_query message = None"
    by (simp add: detect_economic_query_def)
  then show ?thesis
    by (simp add: get_economic_context_def)
qed

theorem no_intent_no_fetch_witness:
  "get_economic_context (\<lambda>url. Raises (RequestException ''down'')) (\<lambda>d. Inr ''x'') ''hola'' = ([], [])"
proof -
  have h: "\<forall>(query_type, keywords) \<in> set patterns.
      \<forall>keyword \<in> set keywords. \<not> py_in keyword (py_lower ''hola'')"
    by (simp add: patterns_def hola_lower)
  show ?thesis using no_intent_no_fetch [OF h] by simp
qed

subsection \<open>The ten-series limit of get_series\<close>

lemma py_join_two:
  "py_join sep (a # b # rest) = (a @ sep) @ b @ (if rest = [] then [] else sep @ py_join sep rest)"
  by (cases rest) simp_all

lemma get_series_over:
  "10 < length series_codes \<Longrightarrow>
   get_series http series_codes output_format sp ep lang =
     (Inl (ValueError (''M'' @ [CHR 0xE1] @ ''ximo 10 series por consulta'')), [])"
  by (simp add: get_series_def)

lemma get_series_within:
  assumes "length series_codes \<le> 10"
  shows "\<exists>url. snd (get_series http series_codes output_format sp ep lang) = [url] \<and>
           sublist (py_join ''-'' series_codes) url \<and>
           (\<forall>e. fst (get_series http series_codes output_format sp ep lang) = Inl e \<longrightarrow>
                  http url = Raises e \<or> (\<exists>t. http url = Response t (Inl e)))"
proof -
  define tail where "tail =
     (case sp of None \<Rightarrow> [] | Some s \<Rightarrow> if s = [] then []
        else s # (case ep of None \<Rightarrow> [] | Some e \<Rightarrow> if e = [] then [] else [e])) @
     (if lang \<noteq> ''esp'' then [lang] else [])"
  define url where "url = py_join ''/'' (BASE_URL # py_join ''-'' series_codes # output_format # tail)"
  have g: "get_series http series_codes output_format sp ep lang =
      (case http url of
              Raises (RequestException e) \<Rightarrow> Inr (JObj [(''error'', JStr e)])
            | Raises e \<Rightarrow> Inl e
            | Response txt decoded \<Rightarrow>
                if output_format = ''json''
                then (case decoded of
                        Inl (RequestException e) \<Rightarrow> Inr (JObj [(''error'', JStr e)])
                      | Inl e \<Rightarrow> Inl e
                      | Inr j \<Rightarrow> Inr j)
                else Inr (JObj [(''raw'', JStr txt)]),
            [url])"
    using assms unfolding get_series_def url_def tail_def Let_def by simp
  have s: "sublist (py_join ''-'' series_codes) url"
    unfolding url_def py_join_two by (rule sublist_appendI)
  have e: "fst (get_series http series_codes output_format sp ep lang) = Inl e \<longrightarrow>
           http url = Raises e \<or> (\<exists>t. http url = Response t (Inl e))" for e
    unfolding g by (auto split: http_outcome.splits exn.splits sum.splits if_splits)
  show ?thesis using g s e by (intro exI [of _ url]) simp
qed

text \<open>
  Claim C8. A call of \<open>get_series\<close> with more than 10 series codes fails at once with the
  \<open>ValueError\<close> of the limit: nothing is requested and the list is not cut down. With 10
  codes or fewer the limit raises nothing: exactly one URL is requested, it holds all the
  codes joined by hyphens, and an exception leaves the call only if the service call
  raised it.
\<close>

theorem get_series_limit:
  "(10 < length series_codes \<longrightarrow>
      get_series http series_codes output_format sp ep lang =
        (Inl (ValueError (''M'' @ [CHR 0xE1] @ ''ximo 10 series por consulta'')), [])) \<and>
   (length series_codes \<le> 10 \<longrightarrow>
      (\<exists>url. snd (get_series http series_codes output_format sp ep lang) = [url] \<and>
           sublist (py_join ''-'' series_codes) url \<and>
           (\<forall>e. fst (get_series http series_codes output_format sp ep lang) = Inl e \<longrightarrow>
                  http url = Raises e \<or> (\<exists>t. http url = Response t (Inl e)))))"
  using get_series_over get_series_within by blast

theorem get_series_limit_witness:
  "get_series (\<lambda>u. Response [] (Inr (JObj []))) (replicate 11 ''PD04637PD'') ''json'' None None ''esp'' =
     (Inl (ValueError (''M'' @ [CHR 0xE1] @ ''ximo 10 series por consulta'')), []) \<and>
   (\<exists>url. snd (get_series (\<lambda>u. Response [] (Inr (JObj []))) (replicate 10 ''PD04637PD'')
                  ''json'' None None ''esp'') = [url] \<and>
           sublist (py_join ''-'' (replicate 10 ''PD04637PD'')) url)"
proof -
  have a: "10 < length (replicate 11 ''PD04637PD'')" by simp
  have b: "length (replicate 10 ''PD04637PD'') \<le> 10" by simp
  from get_series_limit [of "replicate 11 ''PD04637PD''" "\<lambda>u. Response [] (Inr (JObj []))"
         "''json''" None None "''esp''"] a
  have 1: "get_series (\<lambda>u. Response [] (Inr (JObj []))) (replicate 11 ''PD04637PD'') ''json'' None None ''esp'' =
     (Inl (ValueError (''M'' @ [CHR 0xE1] @ ''ximo 10 series por consulta'')), [])"
    by blast
  from get_series_limit [of "replicate 10 ''PD04637PD''" "\<lambda>u. Response [] (Inr (JObj []))"
         "''json''" None None "''esp''"] b
  have 2: "\<exists>url. snd (get_series (\<lambda>u. Response [] (Inr (JObj []))) (replicate 10 ''PD04637PD'')
                  ''json'' None None ''esp'') = [url] \<and>
           sublist (py_join ''-'' (replicate 10 ''PD04637PD'')) url"
    by blast
  from 1 2 show ?thesis by (rule conjI)
qed

subsection \<open>The exchange-rate query\<close>

lemma tc_query_lower: "py_lower ''cual es el tipo de cambio hoy'' = ''cual es el tipo de cambio hoy''"
  by (simp add: py_lower_def py_lower_char_def upper_chars_def lower_chars_def)

lemma tc_query_detect: "detect_economic_query ''cual es el tipo de cambio hoy'' = Some ''tipo_cambio''"
  by (simp add: detect_economic_query_def tc_query_lower patterns_def)

lemma tipo_cambio_requests:
  "snd (get_tipo_cambio http) =
     [BASE_URL @ ''/'' @ TIPO_CAMBIO_PROMEDIO @ ''-'' @ TIPO_CAMBIO_COMPRA @ ''-'' @ TIPO_CAMBIO_VENTA @ ''/json'']"
  by (simp add: get_tipo_cambio_def get_series_def split_def Let_def)

lemma tc_context_requests:
  "snd (get_economic_context http fmt ''cual es el tipo de cambio hoy'') = snd (get_tipo_cambio http)"
  by (simp add: get_economic_context_def tc_query_detect split_def Let_def split: sum.splits)

lemma latest_triple_wellformed:
  assumes "map_of kv ''periods'' = Some (JList ps)" and "ps \<noteq> []" and "last ps = JObj period"
    and "map_of period ''values'' = Some (JList vs)"
  shows "latest_triple k0 k1 k2 (JObj kv) =
     Inr (Some (JObj [(''fecha'', case map_of period ''name'' of None \<Rightarrow> JNull | Some n \<Rightarrow> n),
                      (k0, if 0 < length vs then vs ! 0 else JNull),
                      (k1, if 1 < length vs then vs ! 1 else JNull),
                      (k2, if 2 < length vs then vs ! 2 else JNull)]))"
  using assms by (simp add: latest_triple_def has_periods_def and_then_def value_at_def)

lemma tipo_cambio_result:
  assumes "http (BASE_URL @ ''/'' @ TIPO_CAMBIO_PROMEDIO @ ''-'' @ TIPO_CAMBIO_COMPRA @ ''-'' @ TIPO_CAMBIO_VENTA @ ''/json'')
             = Response txt (Inr data)"
  shows "fst (get_tipo_cambio http) = catch_none (latest_triple ''promedio'' ''compra'' ''venta'' data)"
  using assms by (simp add: get_tipo_cambio_def get_series_def split_def Let_def and_then_def)

text \<open>
  Claim C7. For the query \<open>cual es el tipo de cambio hoy\<close> the resolver selects the
  exchange-rate intent and issues one request, for exactly the three exchange-rate series
  codes (average, buy, sell) joined in one URL. From a response whose object has a
  non-empty list of periods, the last of which is an object with a list of values,
  \<open>get_tipo_cambio\<close> takes that last period and reads the values by position:
  \<open>promedio\<close> is value 0, \<open>compra\<close> value 1, \<open>venta\<close> value 2 (\<open>None\<close> where the list is
  too short); the series names under \<open>config\<close> play no part.
\<close>

theorem exchange_rate_query:
  "detect_economic_query ''cual es el tipo de cambio hoy'' = Some ''tipo_cambio'' \<and>
   snd (get_economic_context http fmt ''cual es el tipo de cambio hoy'') =
     [BASE_URL @ ''/'' @ TIPO_CAMBIO_PROMEDIO @ ''-'' @ TIPO_CAMBIO_COMPRA @ ''-'' @ TIPO_CAMBIO_VENTA @ ''/json''] \<and>
   (http (BASE_URL @ ''/'' @ TIPO_CAMBIO_PROMEDIO @ ''-'' @ TIPO_CAMBIO_COMPRA @ ''-'' @ TIPO_CAMBIO_VENTA @ ''/json'')
        = Response txt (Inr (JObj kv)) \<and>
    map_of kv ''periods'' = Some (JList ps) \<and> ps \<noteq> [] \<and> last ps = JObj period \<and>
    map_of period ''values'' = Some (JList vs) \<longrightarrow>
    fst (get_tipo_cambio http) =
      Some (JObj [(''fecha'', case map_of period ''name'' of None \<Rightarrow> JNull | Some n \<Rightarrow> n),
                  (''promedio'', if 0 < length vs then vs ! 0 else JNull),
                  (''compra'', if 1 < length vs then vs ! 1 else JNull),
                  (''venta'', if 2 < length vs then vs ! 2 else JNull)]))"
  by (simp add: tc_query_detect tc_context_requests tipo_cambio_requests tipo_cambio_result
        latest_triple_wellformed catch_none_def)

theorem exchange_rate_query_witness:
  "snd (get_economic_context
         (\<lambda>u. Response []
            (Inr (JObj [(''config'', JObj [(''series'', JList [JObj [(''name'', JStr ''venta'')]])]),
                        (''periods'', JList
                           [JObj [(''name'', JStr ''02.Nov.26''),
                                  (''values'', JList [JStr ''3.71'', JStr ''3.70'', JStr ''3.72''])],
                            JObj [(''name'', JStr ''03.Nov.26''),
                                  (''values'', JList [JStr ''3.75'', JStr ''3.74'', JStr ''3.76''])]])])))
         (\<lambda>d. Inr []) ''cual es el tipo de cambio hoy'') =
     [''https://estadisticas.bcrp.gob.pe/estadisticas/series/api/PD04637PD-PD04638PD-PD04639PD/json''] \<and>
   fst (get_tipo_cambio
         (\<lambda>u. Response []
            (Inr (JObj [(''config'', JObj [(''series'', JList [JObj [(''name'', JStr ''venta'')]])]),
                        (''periods'', JList
                           [JObj [(''name'', JStr ''02.Nov.26''),
                                  (''values'', JList [JStr ''3.71'', JStr ''3.70'', JStr ''3.72''])],
                            JObj [(''name'', JStr ''03.Nov.26''),
                                  (''values'', JList [JStr ''3.75'', JStr ''3.74'', JStr ''3.76''])]])])))) =
     Some (JObj [(''fecha'', JStr ''03.Nov.26''), (''promedio'', JStr ''3.75''),
                 (''compra'', JStr ''3.74''), (''venta'', JStr ''3.76'')])"
  using exchange_rate_query
    [of "\<lambda>u. Response []
            (Inr (JObj [(''config'', JObj [(''series'', JList [JObj [(''name'', JStr ''venta'')]])]),
                        (''periods'', JList
                           [JObj [(''name'', JStr ''02.Nov.26''),
                                  (''values'', JList [JStr ''3.71'', JStr ''3.70'', JStr ''3.72''])],
                            JObj [(''name'', JStr ''03.Nov.26''),
                                  (''values'', JList [JStr ''3.75'', JStr ''3.74'', JStr ''3.76''])]])]))"
        "\<lambda>d. Inr []" "[]"
        "[(''config'', JObj [(''series'', JList [JObj [(''name'', JStr ''venta'')]])]),
          (''periods'', JList
             [JObj [(''name'', JStr ''02.Nov.26''),
                    (''values'', JList [JStr ''3.71'', JStr ''3.70'', JStr ''3.72''])],
              JObj [(''name'', JStr ''03.Nov.26''),
                    (''values'', JList [JStr ''3.75'', JStr ''3.74'', JStr ''3.76''])]])]"
        "[JObj [(''name'', JStr ''02.Nov.26''),
                (''values'', JList [JStr ''3.71'', JStr ''3.70'', JStr ''3.72''])],
          JObj [(''name'', JStr ''03.Nov.26''),
                (''values'', JList [JStr ''3.75'', JStr ''3.74'', JStr ''3.76''])]]"
        "[(''name'', JStr ''03.Nov.26''),
          (''values'', JList [JStr ''3.75'', JStr ''3.74'', JStr ''3.76''])]"
        "[JStr ''3.75'', JStr ''3.74'', JStr ''3.76'']"]
  by (simp add: BASE_URL_def TIPO_CAMBIO_PROMEDIO_def TIPO_CAMBIO_COMPRA_def TIPO_CAMBIO_VENTA_def)

subsection \<open>A failed fetch still yields a context\<close>

lemma tipo_cambio_on_failure:
  assumes "http (BASE_URL @ ''/'' @ TIPO_CAMBIO_PROMEDIO @ ''-'' @ TIPO_CAMBIO_COMPRA @ ''-'' @ TIPO_CAMBIO_VENTA @ ''/json'')
             = Raises (RequestException e)"
  shows "fst (get_tipo_cambio http) = None"
  using assms
  by (simp add: get_tipo_cambio_def get_series_def split_def Let_def and_then_def
        latest_triple_def has_periods_def catch_none_def)

lemma context_on_failure:
  assumes "fst (get_tipo_cambio http) = None"
  shows "fst (get_economic_context http fmt ''cual es el tipo de cambio hoy'') =
           context_header @ [CHR 0x0A] @ context_footer"
  using assms
  by (simp add: get_economic_context_def tc_query_detect split_def Let_def append_formatted_def)

text \<open>
  Claim C2 says that when the fetch for an economic query fails, \<open>get_economic_context\<close>
  returns the empty string and no exception escapes. No exception escapes, but the string
  is not empty: \<open>get_series\<close> turns the failure into the \<open>error\<close> dictionary,
  \<open>get_tipo_cambio\<close> returns \<open>None\<close>, and \<open>get_economic_context\<close> still joins its header
  and its source line. The theorem evaluates the code on the query
  \<open>cual es el tipo de cambio hoy\<close> with a service whose every request times out.
\<close>

theorem fetch_failure_context_not_empty:
  "fst (get_economic_context (\<lambda>url. Raises (RequestException ''timeout'')) (\<lambda>d. Inr [])
          ''cual es el tipo de cambio hoy'') =
     ''--- DATOS ECON'' @ [CHR 0xD3] @ ''MICOS ACTUALIZADOS (BCRP) ---'' @ [CHR 0x0A, CHR 0x0A, CHR 0x0A] @
     ''Fuente: Banco Central de Reserva del Per'' @ [CHR 0xFA] @ '' (BCRP)'' \<and>
   fst (get_economic_context (\<lambda>url. Raises (RequestException ''timeout'')) (\<lambda>d. Inr [])
          ''cual es el tipo de cambio hoy'') \<noteq> []"
  by (simp add: context_on_failure tipo_cambio_on_failure context_header_def context_footer_def)

subsection \<open>A blocked answer stays in the conversation memory\<close>

lemma sanitize_hola: "sanitize_financial_data ''hola'' = ''hola''"
  by code_simp

lemma check_input_hola: "check_input ''hola'' = (False, [], [])"
  by code_simp

lemma check_output_refusal:
  "check_output ''no puedo ayudarte'' = (True, ''palabra'', ''no puedo ayudarte'')"
  by code_simp

text \<open>
  Claim C1 says that a turn whose answer the output screen blocks leaves the session
  history as it was. In \<open>on_message\<close> the agent has streamed the whole answer, and with
  that has stored the user message and the answer in the memory, before \<open>check_output\<close>
  runs; the blocked branch removes the message from the chat surface only. The theorem
  evaluates a first turn on \<open>hola\<close> whose answer is \<open>no puedo ayudarte\<close>, a keyword of the
  output rule set: the answer is blocked and both messages are in the memory, which was
  empty before the turn.
\<close>

theorem blocked_output_stays_in_memory:
  "fst (check_output (concat [''no puedo '', ''ayudarte''])) \<and>
   memory on_chat_start = [] \<and>
   memory (on_message (\<lambda>inp history. [''no puedo '', ''ayudarte'']) 0 on_chat_start ''hola'') =
     [(Human, ''hola''), (AI, ''no puedo ayudarte'')] \<and>
   screen (on_message (\<lambda>inp history. [''no puedo '', ''ayudarte'']) 0 on_chat_start ''hola'') =
     [Token ''no puedo '', Token ''ayudarte'', RemoveMsg,
      SendWarning (get_random_response 0 responses_output_blocked)]"
  by (simp add: on_message_def sanitize_hola check_input_hola check_output_refusal
        agent_astream_def on_chat_start_def Let_def)

subsection \<open>The input screen returns the first keyword in declaration order\<close>

lemma check_input_keyword:
  "find (\<lambda>palabra. py_in (py_lower palabra) (py_lower message)) palabras_in = Some k \<Longrightarrow>
   check_input message = (True, ''palabra'', k)"
  by (simp add: check_input_def)

lemma robar_hackear_lower: "py_lower ''robar y hackear'' = ''robar y hackear''"
  by (simp add: py_lower_def py_lower_char_def upper_chars_def lower_chars_def)

lemma hackear_casing_lower: "py_lower ''quiero HACKear tu cuenta'' = ''quiero hackear tu cuenta''"
  by (simp add: py_lower_def py_lower_char_def upper_chars_def lower_chars_def)

lemma hackear_lower: "py_lower ''hackear'' = ''hackear''" "py_lower ''HACKear'' = ''hackear''"
  by (simp_all add: py_lower_def py_lower_char_def upper_chars_def lower_chars_def)

lemma palabras_in_head: "palabras_in ! 0 = ''hackear''" "0 < length palabras_in"
  by (simp_all add: palabras_in_def)

text \<open>
  Claim C3 as stated fails: the text \<open>robar y hackear\<close> contains the configured keyword
  \<open>robar\<close>, and \<open>check_input\<close> blocks it as a keyword match, but the value returned is
  \<open>hackear\<close>, the keyword declared first, not \<open>robar\<close>.
\<close>

theorem check_input_two_keywords_counterexample:
  "''robar'' \<in> set palabras_in \<and>
   py_in (py_lower ''robar'') (py_lower ''robar y hackear'') \<and>
   check_input ''robar y hackear'' = (True, ''palabra'', ''hackear'') \<and>
   check_input ''robar y hackear'' \<noteq> (True, ''palabra'', ''robar'')"
proof -
  have 1: "''robar'' \<in> set palabras_in"
    by (simp add: palabras_in_def)
  have 2: "py_in (py_lower ''robar'') (py_lower ''robar y hackear'')"
    by (simp add: robar_hackear_lower) (simp add: py_lower_def py_lower_char_def upper_chars_def lower_chars_def)
  have "find (\<lambda>palabra. py_in (py_lower palabra) (py_lower ''robar y hackear'')) palabras_in
          = Some ''hackear''"
    by (simp add: robar_hackear_lower palabras_in_def hackear_lower)
  then have 3: "check_input ''robar y hackear'' = (True, ''palabra'', ''hackear'')"
    by (rule check_input_keyword)
  from 1 2 3 show ?thesis by simp
qed

text \<open>
  Claim C3, amended. For every inbound text that contains a configured input keyword in
  any casing, \<open>check_input\<close> returns blocked with the kind \<open>palabra\<close> (keyword) and, as
  the matched value, the first keyword in declaration order that the lowercased text
  contains: it is declared at or before the given keyword, and it is the given keyword
  when no keyword declared earlier occurs in the text. The keyword loop returns before
  any pattern is tried.
\<close>

theorem check_input_first_keyword:
  assumes "i < length palabras_in" and "py_lower w = py_lower (palabras_in ! i)"
  shows "\<exists>k\<le>i. check_input (pre @ w @ post) = (True, ''palabra'', palabras_in ! k) \<and>
           py_in (py_lower (palabras_in ! k)) (py_lower (pre @ w @ post)) \<and>
           (\<forall>j<k. \<not> py_in (py_lower (palabras_in ! j)) (py_lower (pre @ w @ post)))"
proof -
  let ?P = "\<lambda>palabra. py_in (py_lower palabra) (py_lower (pre @ w @ post))"
  have "py_lower (pre @ w @ post) = py_lower pre @ py_lower (palabras_in ! i) @ py_lower post"
    using assms(2) by (simp add: py_lower_def)
  then have Pi: "?P (palabras_in ! i)"
    by (simp add: py_in_sublist)
  then have "find ?P palabras_in \<noteq> None"
    using assms(1) by (metis find_None_iff nth_mem)
  then obtain x where x: "find ?P palabras_in = Some x"
    by blast
  then obtain k where k: "k < length palabras_in" "?P (palabras_in ! k)" "x = palabras_in ! k"
      "\<forall>j<k. \<not> ?P (palabras_in ! j)"
    unfolding find_Some_iff by blast
  have "k \<le> i"
    using k(4) Pi by (meson not_le_imp_less)
  moreover have "check_input (pre @ w @ post) = (True, ''palabra'', palabras_in ! k)"
    using x k(3) check_input_keyword by simp
  ultimately show ?thesis
    using k(2) k(4) by blast
qed

theorem check_input_first_keyword_witness:
  "check_input ''quiero HACKear tu cuenta'' = (True, ''palabra'', ''hackear'')"
proof -
  have "py_lower ''HACKear'' = py_lower (palabras_in ! 0)"
    by (simp add: palabras_in_head hackear_lower)
  from check_input_first_keyword [OF palabras_in_head(2) this, of "''quiero ''" "'' tu cuenta''"]
  show ?thesis
    by (simp add: palabras_in_head)
qed

end
